theory Spec2Isabelle
  imports Main
begin

section \<open>Time\<close>

text \<open>
  A Python \<open>datetime\<close> is modelled as the number of microseconds since \<open>datetime.min\<close>
  (0001-01-01 00:00:00), a \<open>timedelta\<close> as a number of microseconds. \<open>DT_MAX\<close> is
  \<open>datetime.max\<close> (9999-12-31 23:59:59.999999): adding a \<open>timedelta\<close> that leaves
  the range raises OverflowError, modelled by \<open>None\<close>. Every handler reads the clock
  once: \<open>now\<close> is that reading.
\<close>

type_synonym datetime = int
type_synonym timedelta = int

definition DT_MAX :: datetime where
  "DT_MAX = 315537897599999999"

definition td_seconds :: "int \<Rightarrow> timedelta" where
  "td_seconds n = n * 1000000"

definition td_hours :: "int \<Rightarrow> timedelta" where
  "td_hours n = n * 3600000000"

definition dt_add :: "datetime \<Rightarrow> timedelta \<Rightarrow> datetime option" where
  "dt_add d delta =
     (if 0 \<le> d + delta \<and> d + delta \<le> DT_MAX then Some (d + delta) else None)"

section \<open>Documents and collections\<close>

text \<open>
  The MongoDB collections are modelled with the document semantics of the driver calls
  the code makes (\<open>find_one\<close>, \<open>insert_one\<close>, \<open>update_one\<close>, \<open>update_many\<close> with
  \<open>$set\<close>, \<open>$inc\<close>, \<open>$addToSet\<close>). \<open>users_verification\<close> and \<open>files\<close> carry a unique
  index on their key and are maps; \<open>verification_tokens\<close> is a list of documents, since
  several tokens of one user coexist. Display names of users and the titles of files play
  no part in the entitlement pipeline and are left out.

  The collections are Motor collections (\<open>config/database.py\<close>): a driver call hands the
  operation to the driver's executor, which carries it out, and returns a Future.
  \<open>database/operations/verification.py\<close> awaits every call and works on the results.
  \<open>users.py\<close>, \<open>files.py\<close> and \<open>settings.py\<close> never await: what they hold is the
  Future, which is truthy, has no items and no \<open>modified_count\<close>. So a write of these
  modules reaches the collection, while the function fails on the Future, logs the
  error and returns False; and a read of these modules never shows its document to the
  code: \<open>doc['_id']\<close> raises TypeError and the \<open>except\<close> branch returns \<open>None\<close>.
\<close>

record user_doc =
  is_verified :: bool
  verified_at :: "datetime option"
  u_expires_at :: "datetime option"
  files_accessed_count :: int
  files_accessed :: "int list"
  last_access :: datetime
  u_created_at :: datetime
  verified_by :: "int option"
  u_updated_at :: "datetime option"

record file_doc =
  password :: string
  storage_message_id :: int
  download_count :: int
  last_downloaded_at :: "datetime option"

record token_doc =
  token_id :: string
  t_user_id :: int
  status :: string
  t_created_at :: datetime
  t_expires_at :: datetime
  completed_at :: "datetime option"
  t_updated_at :: datetime

record db =
  users :: "int \<rightharpoonup> user_doc"
  files :: "int \<rightharpoonup> file_doc"
  tokens :: "token_doc list"
  settings :: "string \<rightharpoonup> string"

section \<open>database/operations/users.py and files.py\<close>

text \<open>
  \<open>get_user_by_id\<close> and \<open>get_file_by_post_no\<close>: \<open>find_one\<close> is not awaited, the
  truthiness test passes on the Future, \<open>user['_id']\<close> raises and the function returns
  \<open>None\<close>, whatever the collection holds.
\<close>

definition get_user_by_id :: "db \<Rightarrow> int \<Rightarrow> user_doc option" where
  "get_user_by_id s user_id = None"

definition get_file_by_post_no :: "db \<Rightarrow> int \<Rightarrow> file_doc option" where
  "get_file_by_post_no s post_no = None"

text \<open>
  \<open>create_user\<close>: the un-awaited \<open>find_one\<close> makes \<open>existing\<close> truthy, so the function
  takes the branch of the user who already exists, fails on \<open>existing['_id']\<close> and inserts
  nothing.
\<close>

definition create_user :: "int \<Rightarrow> datetime \<Rightarrow> db \<Rightarrow> db" where
  "create_user user_id now s = s"

text \<open>
  \<open>$addToSet\<close>: the value is appended unless the array already holds it. The two
  increments are writes: the un-awaited \<open>update_one\<close> changes the matching document.
\<close>

definition addToSet :: "'a list \<Rightarrow> 'a \<Rightarrow> 'a list" where
  "addToSet xs x = (if x \<in> set xs then xs else xs @ [x])"

definition increment_user_file_access :: "int \<Rightarrow> int \<Rightarrow> datetime \<Rightarrow> db \<Rightarrow> db" where
  "increment_user_file_access user_id post_no now s =
     (case users s user_id of
        None \<Rightarrow> s
      | Some u \<Rightarrow>
          s\<lparr>users := (users s)(user_id \<mapsto>
             u\<lparr>files_accessed_count := files_accessed_count u + 1,
               files_accessed := addToSet (files_accessed u) post_no,
               last_access := now\<rparr>)\<rparr>)"

definition increment_download_count :: "int \<Rightarrow> datetime \<Rightarrow> db \<Rightarrow> db" where
  "increment_download_count post_no now s =
     (case files s post_no of
        None \<Rightarrow> s
      | Some f \<Rightarrow>
          s\<lparr>files := (files s)(post_no \<mapsto>
             f\<lparr>download_count := download_count f + 1,
               last_downloaded_at := Some now\<rparr>)\<rparr>)"

text \<open>
  \<open>verify_user_manually\<close>: the expiry is computed first, so an OverflowError leaves the
  collection untouched. The un-awaited \<open>find_one\<close> makes \<open>user\<close> truthy, so
  \<open>create_user\<close> is never called; the \<open>update_one\<close> that follows has no upsert and
  \<open>$set\<close>s the verification fields of the user's document where there is one.
\<close>

definition verify_user_manually :: "int \<Rightarrow> int \<Rightarrow> int option \<Rightarrow> datetime \<Rightarrow> db \<Rightarrow> db" where
  "verify_user_manually user_id hours admin now s =
     (case dt_add now (td_hours hours) of
        None \<Rightarrow> s
      | Some expires \<Rightarrow>
          (case users s user_id of
             None \<Rightarrow> s
           | Some u \<Rightarrow>
               s\<lparr>users := (users s)(user_id \<mapsto>
                  u\<lparr>is_verified := True, verified_at := Some now,
                    u_expires_at := Some expires, files_accessed_count := 0,
                    files_accessed := [], verified_by := admin,
                    u_updated_at := Some now\<rparr>)\<rparr>))"

section \<open>user_bot/handlers/download.py\<close>

text \<open>
  The chat gateway either fails on \<open>copy_message\<close>, or copies the archive and fails on the
  warning \<open>reply_text\<close>, or performs both. The deletion that follows the ten-minute sleep
  touches no collection.
\<close>

datatype gateway = CopyFails | WarningFails | GatewayOk

datatype download_reply =
  FileNotFound | UserRecordNotFound | LimitReached | FileSent | ErrorSendingFile

definition send_file_to_user ::
  "gateway \<Rightarrow> int \<Rightarrow> int \<Rightarrow> datetime \<Rightarrow> db \<Rightarrow> download_reply \<times> db" where
  "send_file_to_user gw user_id post_no now s =
     (case get_file_by_post_no s post_no of
        None \<Rightarrow> (FileNotFound, s)
      | Some file_record \<Rightarrow>
          (case get_user_by_id s user_id of
             None \<Rightarrow> (UserRecordNotFound, s)
           | Some user \<Rightarrow>
               if files_accessed_count user \<ge> 3 then (LimitReached, s)
               else
                 (case gw of
                    CopyFails \<Rightarrow> (ErrorSendingFile, s)
                  | WarningFails \<Rightarrow> (ErrorSendingFile, s)
                  | GatewayOk \<Rightarrow>
                      (FileSent,
                       increment_user_file_access user_id post_no now
                         (increment_download_count post_no now s)))))"

section \<open>user_bot/utils/file_manager.py\<close>


section \<open>user_bot/utils/verification.py: the quota part of the eligibility check\<close>

text \<open>The third component of the result, a dictionary of details for display, is left out.\<close>

definition check_verification_eligibility :: "int \<Rightarrow> datetime \<Rightarrow> db \<Rightarrow> bool \<times> string" where
  "check_verification_eligibility user_id now s =
     (case get_user_by_id s user_id of
        None \<Rightarrow> (False, ''user_not_found'')
      | Some user \<Rightarrow>
          if is_verified user then
            (case u_expires_at user of
               None \<Rightarrow> (False, ''no_expiry'')
             | Some expires \<Rightarrow>
                 if expires < now then (False, ''expired'')
                 else if files_accessed_count user \<ge> 3 then (False, ''limit_reached'')
                 else (True, ''eligible''))
          else (False, ''not_verified''))"

section \<open>database/operations/verification.py and settings.py\<close>

definition get_verification_token :: "db \<Rightarrow> string \<Rightarrow> token_doc option" where
  "get_verification_token s tid = find (\<lambda>t. token_id t = tid) (tokens s)"

text \<open>\<open>update_one\<close> changes the first matching document, \<open>update_many\<close> all of them.\<close>

fun update_one :: "('a \<Rightarrow> bool) \<Rightarrow> ('a \<Rightarrow> 'a) \<Rightarrow> 'a list \<Rightarrow> 'a list" where
  "update_one p f [] = []"
| "update_one p f (x # xs) = (if p x then f x # xs else x # update_one p f xs)"

definition update_many :: "('a \<Rightarrow> bool) \<Rightarrow> ('a \<Rightarrow> 'a) \<Rightarrow> 'a list \<Rightarrow> 'a list" where
  "update_many p f xs = map (\<lambda>x. if p x then f x else x) xs"

definition update_token_status ::
  "string \<Rightarrow> string \<Rightarrow> datetime option \<Rightarrow> datetime \<Rightarrow> db \<Rightarrow> db" where
  "update_token_status tid new_status completed now s =
     s\<lparr>tokens :=
        update_one (\<lambda>t. token_id t = tid)
          (\<lambda>t. t\<lparr>status := new_status, t_updated_at := now,
                 completed_at :=
                   (case completed of
                      Some c \<Rightarrow> Some c
                    | None \<Rightarrow> if new_status = ''completed'' then Some now
                              else completed_at t)\<rparr>)
          (tokens s)\<rparr>"

definition mark_token_in_progress :: "string \<Rightarrow> datetime \<Rightarrow> db \<Rightarrow> db" where
  "mark_token_in_progress tid now s = update_token_status tid ''in_progress'' None now s"

definition mark_token_completed :: "string \<Rightarrow> datetime \<Rightarrow> db \<Rightarrow> db" where
  "mark_token_completed tid now s = update_token_status tid ''completed'' (Some now) now s"

text \<open>
  \<open>create_verification_token\<close>: the second component tells whether a document was
  inserted. The unique index on \<open>token_id\<close> makes a duplicate insertion raise, and so does
  an expiry beyond \<open>datetime.max\<close>; both end in the \<open>except\<close> branch.
\<close>

definition create_verification_token ::
  "string \<Rightarrow> int \<Rightarrow> int \<Rightarrow> datetime \<Rightarrow> db \<Rightarrow> db \<times> bool" where
  "create_verification_token tid user_id expiry_seconds now s =
     (case dt_add now (td_seconds expiry_seconds) of
        None \<Rightarrow> (s, False)
      | Some expires \<Rightarrow>
          (case get_verification_token s tid of
             Some existing \<Rightarrow> (s, False)
           | None \<Rightarrow>
               (s\<lparr>tokens := tokens s @
                   [\<lparr>token_id = tid, t_user_id = user_id, status = ''pending'',
                     t_created_at = now, t_expires_at = expires, completed_at = None,
                     t_updated_at = now\<rparr>]\<rparr>, True)))"

definition has_user_pending_token :: "int \<Rightarrow> datetime \<Rightarrow> db \<Rightarrow> bool" where
  "has_user_pending_token user_id now s =
     (case find (\<lambda>t. t_user_id t = user_id \<and> status t = ''pending'' \<and> now < t_expires_at t)
             (tokens s) of
        None \<Rightarrow> False
      | Some t \<Rightarrow> True)"

definition invalidate_user_tokens :: "int \<Rightarrow> datetime \<Rightarrow> db \<Rightarrow> db" where
  "invalidate_user_tokens user_id now s =
     s\<lparr>tokens :=
        update_many
          (\<lambda>t. t_user_id t = user_id \<and> (status t = ''pending'' \<or> status t = ''in_progress''))
          (\<lambda>t. t\<lparr>status := ''expired'', t_updated_at := now\<rparr>)
          (tokens s)\<rparr>"

text \<open>
  \<open>get_setting\<close> does not await its \<open>find_one\<close> and returns \<open>None\<close> for every key, so
  \<open>get_setting_value\<close> answers with the default it was given.
\<close>

definition get_setting :: "db \<Rightarrow> string \<Rightarrow> string option" where
  "get_setting s setting_key = None"

definition get_setting_value :: "db \<Rightarrow> string \<Rightarrow> string option \<Rightarrow> string option" where
  "get_setting_value s setting_key dflt =
     (case get_setting s setting_key of Some v \<Rightarrow> Some v | None \<Rightarrow> dflt)"

text \<open>Python truthiness of an optional string: neither \<open>None\<close> nor empty.\<close>

definition truthy :: "string option \<Rightarrow> bool" where
  "truthy x = (case x of None \<Rightarrow> False | Some v \<Rightarrow> (case v of [] \<Rightarrow> False | c # cs \<Rightarrow> True))"

section \<open>user_bot/utils/token.py\<close>

definition validate_token :: "string \<Rightarrow> int \<Rightarrow> datetime \<Rightarrow> db \<Rightarrow> bool \<times> string" where
  "validate_token tid user_id now s =
     (case get_verification_token s tid of
        None \<Rightarrow> (False, ''token_not_found'')
      | Some token_record \<Rightarrow>
          if t_user_id token_record \<noteq> user_id then (False, ''token_mismatch'')
          else if t_expires_at token_record < now then (False, ''token_expired'')
          else if status token_record = ''completed'' then (False, ''token_reused'')
          else if status token_record \<noteq> ''in_progress'' then (False, ''invalid_state'')
          else if now - t_created_at token_record < td_seconds 5 then (False, ''too_fast'')
          else (True, ''valid''))"

section \<open>user_bot/handlers/verification.py\<close>

text \<open>
  \<open>handle_verification_callback\<close>. Python's \<open>int\<close> on the value of the setting is the
  parameter \<open>py_int\<close>; where it raises, the exception leaves the handler after the token
  was marked completed and the caller answers with its invalid-link reply.
\<close>

datatype verification_reply = TokenError | BypassDetected | VerifiedSuccess | InvalidLink

definition handle_verification_callback ::
  "(string \<Rightarrow> int option) \<Rightarrow> string \<Rightarrow> int \<Rightarrow> datetime \<Rightarrow> db \<Rightarrow> verification_reply \<times> db" where
  "handle_verification_callback py_int tid user_id now s =
     (case get_verification_token s tid of
        None \<Rightarrow> (TokenError, s)
      | Some token \<Rightarrow>
          if t_user_id token \<noteq> user_id then (TokenError, s)
          else if t_expires_at token < now then (TokenError, s)
          else if status token = ''completed'' then (TokenError, s)
          else if status token \<noteq> ''in_progress'' then (BypassDetected, s)
          else if now - t_created_at token < td_seconds 5 then (BypassDetected, s)
          else
            (let s1 = mark_token_completed tid now s in
             case get_setting_value s1 ''verification_period_hours'' (Some ''24'') of
               None \<Rightarrow> (InvalidLink, s1)
             | Some hours \<Rightarrow>
                 (case py_int hours of
                    None \<Rightarrow> (InvalidLink, s1)
                  | Some h \<Rightarrow> (VerifiedSuccess, verify_user_manually user_id h (Some 0) now s1))))"

text \<open>
  \<open>handle_verify_now\<close>. The fresh token id and the short URL answered by the shortlink
  provider (\<open>None\<close> when the request fails) are parameters, as is the configured
  \<open>VERIFICATION_TOKEN_EXPIRY\<close>.
\<close>

datatype verify_now_reply = AlreadyVerified | ServiceNotConfigured | LinkError | LinkGenerated

definition handle_verify_now ::
  "int \<Rightarrow> string \<Rightarrow> string option \<Rightarrow> int \<Rightarrow> datetime \<Rightarrow> db \<Rightarrow> verify_now_reply \<times> db" where
  "handle_verify_now expiry tid short_url user_id now s =
     (if (case get_user_by_id s user_id of
            None \<Rightarrow> False
          | Some user \<Rightarrow>
              if is_verified user then
                (case u_expires_at user of None \<Rightarrow> False | Some expires \<Rightarrow> now < expires)
              else False)
      then (AlreadyVerified, s)
      else
        (let s1 = fst (create_verification_token tid user_id expiry now s) in
         if truthy (get_setting_value s1 ''shortlink_api_key'' None)
            \<and> truthy (get_setting_value s1 ''shortlink_base_url'' None)
         then (if truthy short_url then (LinkGenerated, s1) else (LinkError, s1))
         else (ServiceNotConfigured, s1)))"

section \<open>user_bot/utils/verification.py: minting\<close>

definition generate_verification_link ::
  "int \<Rightarrow> string \<Rightarrow> string option \<Rightarrow> int \<Rightarrow> datetime \<Rightarrow> db \<Rightarrow> string option \<times> db" where
  "generate_verification_link expiry tid short_url user_id now s =
     (let s1 = (if has_user_pending_token user_id now s
                then invalidate_user_tokens user_id now s else s);
          r = create_verification_token tid user_id expiry now s1
      in if snd r then
           (if truthy (get_setting_value (fst r) ''shortlink_api_key'' None)
               \<and> truthy (get_setting_value (fst r) ''shortlink_base_url'' None)
            then (if truthy short_url then (short_url, fst r) else (None, fst r))
            else (None, fst r))
         else (None, fst r))"

section \<open>verification_server/routes/shortlink.py\<close>

text \<open>
  \<open>handle_redirect\<close> answers with an HTTP status. Its argument is the decoded token id,
  \<open>None\<close> when the query parameter is missing or does not decode.
\<close>

definition handle_redirect :: "string option \<Rightarrow> datetime \<Rightarrow> db \<Rightarrow> nat \<times> db" where
  "handle_redirect token now s =
     (case token of
        None \<Rightarrow> (400, s)
      | Some tid \<Rightarrow>
          (case get_verification_token s tid of
             None \<Rightarrow> (404, s)
           | Some token_record \<Rightarrow>
               if t_expires_at token_record < now then (410, s)
               else if status token_record = ''completed'' then (410, s)
               else (302, mark_token_in_progress tid now s)))"

section \<open>verification_server/utils/bypass_check.py\<close>

definition check_token_timing :: "token_doc \<Rightarrow> datetime \<Rightarrow> bool \<times> string" where
  "check_token_timing token_record now =
     (if now - t_created_at token_record < td_seconds 5 then (False, ''too_fast'')
      else if now - t_updated_at token_record < td_seconds 3
      then (False, ''state_change_too_fast'')
      else (True, ''valid_timing''))"

definition validate_token_state :: "token_doc \<Rightarrow> bool \<times> string" where
  "validate_token_state token_record =
     (if status token_record \<noteq> ''in_progress''
      then (False, ''invalid_state_'' @ status token_record)
      else (True, ''valid_state''))"

text \<open>The first component of \<open>detect_bypass_attempt\<close> is True when a bypass is detected.\<close>

definition detect_bypass_attempt :: "string \<Rightarrow> int \<Rightarrow> datetime \<Rightarrow> db \<Rightarrow> bool \<times> string" where
  "detect_bypass_attempt tid user_id now s =
     (case get_verification_token s tid of
        None \<Rightarrow> (True, ''token_not_found'')
      | Some token_record \<Rightarrow>
          if t_user_id token_record \<noteq> user_id then (True, ''user_mismatch'')
          else if t_expires_at token_record < now then (True, ''token_expired'')
          else if status token_record = ''completed'' then (True, ''token_reused'')
          else if fst (check_token_timing token_record now) then
            (if fst (validate_token_state token_record) then (False, ''valid'')
             else (True, snd (validate_token_state token_record)))
          else (True, snd (check_token_timing token_record now)))"

section \<open>user_bot/utils/force_sub.py\<close>

text \<open>
  The bot's \<open>get_chat_member\<close> is a function from the chat and the user to the status
  string of the member, or to the error it raises.
\<close>

datatype chat = ChatId int | ChatUsername string

datatype gateway_error = TelegramError | OtherError

definition chat_identifier :: "int option \<Rightarrow> string option \<Rightarrow> chat option" where
  "chat_identifier channel_id channel_username =
     (case (case channel_id of None \<Rightarrow> None | Some c \<Rightarrow> if c = 0 then None else Some c) of
        Some c \<Rightarrow> Some (ChatId c)
      | None \<Rightarrow>
          (case channel_username of
             None \<Rightarrow> None
           | Some n \<Rightarrow> (case n of [] \<Rightarrow> None | x # xs \<Rightarrow> Some (ChatUsername n))))"

definition check_user_subscribed ::
  "(chat \<Rightarrow> int \<Rightarrow> gateway_error + string) \<Rightarrow> int \<Rightarrow> int option \<Rightarrow> string option \<Rightarrow> bool" where
  "check_user_subscribed get_chat_member user_id channel_id channel_username =
     (case chat_identifier channel_id channel_username of
        None \<Rightarrow> False
      | Some c \<Rightarrow>
          (case get_chat_member c user_id of
             Inl e \<Rightarrow> False
           | Inr member_status \<Rightarrow>
               (if member_status \<in> set [''left'', ''kicked''] then False else True)))"

section \<open>Outstanding tokens\<close>

text \<open>
  The tokens of a user whose stored status is not terminal, in collection order. No
  function of the repository computes this list; it states the single-outstanding-token
  property.
\<close>

definition outstanding_tokens :: "int \<Rightarrow> db \<Rightarrow> token_doc list" where
  "outstanding_tokens user_id s =
     filter (\<lambda>t. t_user_id t = user_id \<and> (status t = ''pending'' \<or> status t = ''in_progress''))
       (tokens s)"

section \<open>Example data\<close>

text \<open>Times are written in seconds, as in the end-to-end scenarios.\<close>

definition user42 :: user_doc where
  "user42 = \<lparr>is_verified = True, verified_at = Some (td_seconds 1021),
     u_expires_at = Some (td_seconds 87421), files_accessed_count = 1,
     files_accessed = [7], last_access = td_seconds 4000, u_created_at = td_seconds 1000,
     verified_by = Some 0, u_updated_at = Some (td_seconds 1021)\<rparr>"

definition user_at_four :: user_doc where
  "user_at_four = user42\<lparr>files_accessed_count := 4, files_accessed := [1, 2, 3, 4]\<rparr>"

definition user_at_three :: user_doc where
  "user_at_three = user42\<lparr>files_accessed_count := 3, files_accessed := [7, 8, 9]\<rparr>"

text \<open>A record as first contact is meant to seed it.\<close>

definition user_new :: user_doc where
  "user_new = \<lparr>is_verified = False, verified_at = None, u_expires_at = None,
     files_accessed_count = 0, files_accessed = [], last_access = td_seconds 1000,
     u_created_at = td_seconds 1000, verified_by = None, u_updated_at = None\<rparr>"

definition file7 :: file_doc where
  "file7 = \<lparr>password = ''default123'', storage_message_id = 55, download_count = 1,
     last_downloaded_at = Some (td_seconds 4000)\<rparr>"


definition db_limit_five :: db where
  "db_limit_five = \<lparr>users = [42 \<mapsto> user_at_four], files = [7 \<mapsto> file7], tokens = [],
     settings = [''file_access_limit'' \<mapsto> ''5'']\<rparr>"

definition db_at_limit :: db where
  "db_at_limit = \<lparr>users = [42 \<mapsto> user_at_three], files = [10 \<mapsto> file7], tokens = [],
     settings = [''file_access_limit'' \<mapsto> ''3'']\<rparr>"

definition token_abc :: token_doc where
  "token_abc = \<lparr>token_id = ''abc'', t_user_id = 42, status = ''in_progress'',
     t_created_at = td_seconds 1000, t_expires_at = td_seconds 1600, completed_at = None,
     t_updated_at = td_seconds 1010\<rparr>"

definition token_def :: token_doc where
  "token_def = \<lparr>token_id = ''def'', t_user_id = 42, status = ''pending'',
     t_created_at = td_seconds 1900, t_expires_at = td_seconds 2500, completed_at = None,
     t_updated_at = td_seconds 1900\<rparr>"

definition token_done :: token_doc where
  "token_done = \<lparr>token_id = ''done'', t_user_id = 42, status = ''completed'',
     t_created_at = td_seconds 1700, t_expires_at = td_seconds 2300,
     completed_at = Some (td_seconds 1720), t_updated_at = td_seconds 1720\<rparr>"


definition token_mno :: token_doc where
  "token_mno = \<lparr>token_id = ''mno'', t_user_id = 42, status = ''in_progress'',
     t_created_at = td_seconds 3000, t_expires_at = td_seconds 3600, completed_at = None,
     t_updated_at = td_seconds 3009\<rparr>"

definition bot_settings :: "string \<rightharpoonup> string" where
  "bot_settings = [''verification_period_hours'' \<mapsto> ''24'', ''file_access_limit'' \<mapsto> ''3'',
     ''shortlink_api_key'' \<mapsto> ''k'', ''shortlink_base_url'' \<mapsto> ''https://sho.rt'']"

text \<open>A store with the record of user 42 and the given tokens.\<close>

definition db_tokens :: "token_doc list \<Rightarrow> db" where
  "db_tokens ts = \<lparr>users = [42 \<mapsto> user_new], files = Map.empty, tokens = ts,
     settings = bot_settings\<rparr>"

text \<open>The same store without any user record, and with a stored period of 48 hours.\<close>

definition db_no_record :: db where
  "db_no_record = \<lparr>users = Map.empty, files = Map.empty, tokens = [token_abc],
     settings = bot_settings\<rparr>"

definition db_period_48 :: db where
  "db_period_48 = \<lparr>users = [42 \<mapsto> user_new], files = Map.empty, tokens = [token_abc],
     settings = [''verification_period_hours'' \<mapsto> ''48'']\<rparr>"

text \<open>A reading of the period that knows the default value only, and one that also
  knows 48.\<close>

definition read_24 :: "string \<Rightarrow> int option" where
  "read_24 v = (if v = ''24'' then Some 24 else None)"

definition read_hours :: "string \<Rightarrow> int option" where
  "read_hours v = (if v = ''24'' then Some 24 else if v = ''48'' then Some 48 else None)"

text \<open>A gateway: user 1 is restricted, user 2 kicked, user 4 of unknown status; any other
  query raises.\<close>

definition gateway_example :: "chat \<Rightarrow> int \<Rightarrow> gateway_error + string" where
  "gateway_example c user_id =
     (if user_id = 1 then Inr ''restricted''
      else if user_id = 2 then Inr ''kicked''
      else if user_id = 4 then Inr ''unknown''
      else Inl TelegramError)"

section \<open>Facts about the collections\<close>

lemma find_update_one:
  "find p xs = Some x \<Longrightarrow> p (f x) \<Longrightarrow> find p (update_one p f xs) = Some (f x)"
  by (induction xs) (auto split: if_splits)

lemma update_one_no_match:
  "find p xs = None \<Longrightarrow> update_one p f xs = xs"
  by (induction xs) (auto split: if_splits)

lemma get_verification_token_id:
  "get_verification_token s tid = Some t \<Longrightarrow> token_id t = tid"
  by (auto simp: get_verification_token_def dest: find_Some_iff [THEN iffD1])

lemma settings_update_token_status:
  "settings (update_token_status tid st c now s) = settings s"
  by (simp add: update_token_status_def)

lemma users_update_token_status:
  "users (update_token_status tid st c now s) = users s"
  by (simp add: update_token_status_def)

text \<open>The handlers of \<open>download.py\<close> and the eligibility check never get past their
  first lookup.\<close>

lemma send_file_to_user_file_not_found:
  "send_file_to_user gw user_id post_no now s = (FileNotFound, s)"
  by (simp add: send_file_to_user_def get_file_by_post_no_def)

lemma check_verification_eligibility_user_not_found:
  "check_verification_eligibility user_id now s = (False, ''user_not_found'')"
  by (simp add: check_verification_eligibility_def get_user_by_id_def)

text \<open>Where the user has a record, \<open>verify_user_manually\<close> sets the entitlement fields.\<close>

lemma verify_user_manually_entitlement:
  assumes "dt_add now (td_hours h) = Some e" and "users s user_id = Some u0"
  shows "\<exists>u. users (verify_user_manually user_id h admin now s) user_id = Some u
           \<and> is_verified u \<and> verified_at u = Some now \<and> u_expires_at u = Some e
           \<and> files_accessed_count u = 0 \<and> files_accessed u = []"
  using assms by (simp add: verify_user_manually_def)

lemma verify_user_manually_no_record:
  "users s user_id = None \<Longrightarrow> verify_user_manually user_id h admin now s = s"
  by (simp add: verify_user_manually_def split: option.split)

section \<open>Delivery and quota\<close>



text \<open>
  C6. One below the configured limit a request ought to be served, at the limit it ought
  to get the quota screen. The handler does neither: with a limit of 5 and a count of 4,
  and with a limit of 3 and a count of 3, it answers that the file was not found, for a
  file that is stored, and the eligibility check answers that the user was not found.
  The comparison with the limit, written against the literal 3, is never reached.
\<close>

theorem quota_gate_never_reached:
  "settings db_limit_five ''file_access_limit'' = Some ''5'' \<and>
   map_option files_accessed_count (users db_limit_five 42) = Some 4 \<and>
   files db_limit_five 7 = Some file7 \<and>
   send_file_to_user GatewayOk 42 7 (td_seconds 4700) db_limit_five
     = (FileNotFound, db_limit_five) \<and>
   check_verification_eligibility 42 (td_seconds 4700) db_limit_five
     = (False, ''user_not_found'') \<and>
   settings db_at_limit ''file_access_limit'' = Some ''3'' \<and>
   map_option files_accessed_count (users db_at_limit 42) = Some 3 \<and>
   files db_at_limit 10 = Some file7 \<and>
   send_file_to_user GatewayOk 42 10 (td_seconds 4700) db_at_limit
     = (FileNotFound, db_at_limit) \<and>
   check_verification_eligibility 42 (td_seconds 4700) db_at_limit
     = (False, ''user_not_found'')"
  by (simp add: send_file_to_user_def get_file_by_post_no_def get_user_by_id_def
      check_verification_eligibility_def db_limit_five_def db_at_limit_def
      user_at_four_def user_at_three_def user42_def)

section \<open>Token validation\<close>

text \<open>What \<open>validate_token\<close> checks: owner, lifetime, stored status, and five seconds since
  creation. The time since the token moved to \<open>in_progress\<close> is not among them.\<close>

lemma validate_token_accepts_iff:
  "fst (validate_token tid user_id now s) =
     (case get_verification_token s tid of
        None \<Rightarrow> False
      | Some t \<Rightarrow> t_user_id t = user_id \<and> now \<le> t_expires_at t
          \<and> status t = ''in_progress'' \<and> td_seconds 5 \<le> now - t_created_at t)"
  by (auto simp: validate_token_def split: option.splits)

text \<open>
  C2. Validation ought to reject a token that moved to \<open>in_progress\<close> less than three
  seconds ago. The bot side has no such check: token \<open>mno\<close>, created at 3000 s and
  advanced at 3009 s, is accepted at 3010 s by \<open>validate_token\<close> and by the callback,
  which verifies the user, while \<open>detect_bypass_attempt\<close> of the verification server
  rejects the same token at the same instant as a too fast state change.
\<close>

theorem dwell_not_checked_by_bot:
  "t_updated_at token_mno = td_seconds 3009 \<and>
   validate_token ''mno'' 42 (td_seconds 3010) (db_tokens [token_mno]) = (True, ''valid'') \<and>
   fst (handle_verification_callback read_24 ''mno'' 42 (td_seconds 3010) (db_tokens [token_mno]))
     = VerifiedSuccess \<and>
   map_option is_verified
     (users (snd (handle_verification_callback read_24 ''mno'' 42 (td_seconds 3010)
        (db_tokens [token_mno]))) 42) = Some True \<and>
   detect_bypass_attempt ''mno'' 42 (td_seconds 3010) (db_tokens [token_mno])
     = (True, ''state_change_too_fast'')"
  by (simp add: validate_token_def handle_verification_callback_def detect_bypass_attempt_def
      check_token_timing_def validate_token_state_def get_verification_token_def
      mark_token_completed_def update_token_status_def get_setting_value_def get_setting_def
      verify_user_manually_def user_new_def dt_add_def DT_MAX_def td_hours_def
      td_seconds_def read_24_def db_tokens_def bot_settings_def token_mno_def)

text \<open>
  C5 as stated fails: a pending token within its lifetime that another user presents
  gets the token-error reply (reason \<open>token_mismatch\<close>), not the bypass screen.
\<close>

theorem pending_token_of_other_user_is_token_error:
  "status token_def = ''pending'' \<and>
   get_verification_token (db_tokens [token_def]) ''def'' = Some token_def \<and>
   \<not> t_expires_at token_def < td_seconds 2000 \<and>
   handle_verification_callback read_24 ''def'' 99 (td_seconds 2000) (db_tokens [token_def])
     = (TokenError, db_tokens [token_def]) \<and>
   validate_token ''def'' 99 (td_seconds 2000) (db_tokens [token_def])
     = (False, ''token_mismatch'')"
  by (simp add: handle_verification_callback_def validate_token_def get_verification_token_def
      td_seconds_def db_tokens_def token_def_def)

text \<open>
  C5, amended. A token whose stored status is \<open>pending\<close>, that belongs to the calling user
  and is not past its \<open>expires_at\<close>, gets the bypass-detected reply, the store is left as it
  was, and \<open>validate_token\<close> reports \<open>invalid_state\<close>. A pending token that belongs to
  another user gets the token-error reply with reason \<open>token_mismatch\<close>, and a pending
  token of the calling user past its \<open>expires_at\<close> gets it with reason \<open>token_expired\<close>;
  the store is left as it was.
\<close>

theorem pending_token_is_bypass:
  "(get_verification_token s tid = Some t \<and> status t = ''pending'' \<and> t_user_id t = user_id
      \<and> \<not> t_expires_at t < now
      \<longrightarrow> handle_verification_callback py_int tid user_id now s = (BypassDetected, s)
          \<and> validate_token tid user_id now s = (False, ''invalid_state'')) \<and>
   (get_verification_token s tid_m = Some t_m \<and> status t_m = ''pending''
      \<and> t_user_id t_m \<noteq> user_m
      \<longrightarrow> handle_verification_callback py_int tid_m user_m now_m s = (TokenError, s)
          \<and> validate_token tid_m user_m now_m s = (False, ''token_mismatch'')) \<and>
   (get_verification_token s tid_x = Some t_x \<and> status t_x = ''pending''
      \<and> t_user_id t_x = user_x \<and> t_expires_at t_x < now_x
      \<longrightarrow> handle_verification_callback py_int tid_x user_x now_x s = (TokenError, s)
          \<and> validate_token tid_x user_x now_x s = (False, ''token_expired''))"
  by (simp add: handle_verification_callback_def validate_token_def)

theorem pending_token_is_bypass_witness:
  "handle_verification_callback read_24 ''def'' 42 (td_seconds 2000) (db_tokens [token_def])
     = (BypassDetected, db_tokens [token_def]) \<and>
   validate_token ''def'' 42 (td_seconds 2000) (db_tokens [token_def]) = (False, ''invalid_state'') \<and>
   handle_verification_callback read_24 ''def'' 99 (td_seconds 2000) (db_tokens [token_def])
     = (TokenError, db_tokens [token_def]) \<and>
   validate_token ''def'' 99 (td_seconds 2000) (db_tokens [token_def]) = (False, ''token_mismatch'') \<and>
   handle_verification_callback read_24 ''def'' 42 (td_seconds 2600) (db_tokens [token_def])
     = (TokenError, db_tokens [token_def]) \<and>
   validate_token ''def'' 42 (td_seconds 2600) (db_tokens [token_def]) = (False, ''token_expired'')"
proof -
  have h1: "get_verification_token (db_tokens [token_def]) ''def'' = Some token_def
      \<and> status token_def = ''pending'' \<and> t_user_id token_def = 42
      \<and> \<not> t_expires_at token_def < td_seconds 2000"
    by (simp add: get_verification_token_def db_tokens_def token_def_def td_seconds_def)
  have h2: "get_verification_token (db_tokens [token_def]) ''def'' = Some token_def
      \<and> status token_def = ''pending'' \<and> t_user_id token_def \<noteq> 99"
    by (simp add: get_verification_token_def db_tokens_def token_def_def)
  have h3: "get_verification_token (db_tokens [token_def]) ''def'' = Some token_def
      \<and> status token_def = ''pending'' \<and> t_user_id token_def = 42
      \<and> t_expires_at token_def < td_seconds 2600"
    by (simp add: get_verification_token_def db_tokens_def token_def_def td_seconds_def)
  show ?thesis
    using h1 h2 h3
      pending_token_is_bypass [where s = "db_tokens [token_def]" and py_int = read_24
        and tid = "''def''" and t = token_def and user_id = 42 and now = "td_seconds 2000"
        and tid_m = "''def''" and t_m = token_def and user_m = 99
        and now_m = "td_seconds 2000"
        and tid_x = "''def''" and t_x = token_def and user_x = 42
        and now_x = "td_seconds 2600"]
    by blast
qed



section \<open>Verification reset\<close>

text \<open>
  What the callback does on acceptance for a user who has a record: with the default
  period read as \<open>h\<close> hours and \<open>now\<close> plus \<open>h\<close> hours a representable date, the record
  gets \<open>is_verified = True\<close>, \<open>verified_at = now\<close>, \<open>expires_at = now + h\<close> hours,
  \<open>files_accessed_count = 0\<close> and an empty \<open>files_accessed\<close>.
\<close>

lemma accept_resets_existing_record:
  assumes "validate_token tid user_id now s = (True, ''valid'')"
      and "users s user_id = Some u0"
      and "py_int ''24'' = Some h"
      and "0 \<le> now + td_hours h" and "now + td_hours h \<le> DT_MAX"
  shows "fst (handle_verification_callback py_int tid user_id now s) = VerifiedSuccess \<and>
         (\<exists>u. users (snd (handle_verification_callback py_int tid user_id now s)) user_id = Some u
           \<and> is_verified u \<and> verified_at u = Some now
           \<and> u_expires_at u = Some (now + td_hours h)
           \<and> files_accessed_count u = 0 \<and> files_accessed u = [])"
proof -
  have e: "dt_add now (td_hours h) = Some (now + td_hours h)"
    using assms(4,5) by (simp add: dt_add_def)
  obtain t where t: "get_verification_token s tid = Some t"
    using assms(1) by (cases "get_verification_token s tid") (simp_all add: validate_token_def)
  have checks: "t_user_id t = user_id" "\<not> t_expires_at t < now" "status t = ''in_progress''"
    "\<not> now - t_created_at t < td_seconds 5"
    using assms(1) t by (simp_all add: validate_token_def split: if_splits)
  have run: "handle_verification_callback py_int tid user_id now s =
      (VerifiedSuccess, verify_user_manually user_id h (Some 0) now (mark_token_completed tid now s))"
    using t checks assms(3)
    by (simp add: handle_verification_callback_def get_setting_value_def get_setting_def)
  have u: "users (mark_token_completed tid now s) user_id = Some u0"
    using assms(2) by (simp add: mark_token_completed_def users_update_token_status)
  show ?thesis
    using verify_user_manually_entitlement [OF e u, of "Some 0"]
    by (simp add: run)
qed

text \<open>
  C7. On acceptance the user ought to end verified, with \<open>expires_at\<close> the configured
  period after \<open>now\<close>. For a user without a record the callback answers with the success
  reply and writes no record: user 42 is as absent after the call as before. For a user
  with a record and a stored period of 48 hours the record expires 24 hours after
  \<open>now\<close>: the stored period is never read.
\<close>

theorem accept_misses_record_and_period:
  "users db_no_record 42 = None \<and>
   validate_token ''abc'' 42 (td_seconds 1021) db_no_record = (True, ''valid'') \<and>
   fst (handle_verification_callback read_hours ''abc'' 42 (td_seconds 1021) db_no_record)
     = VerifiedSuccess \<and>
   users (snd (handle_verification_callback read_hours ''abc'' 42 (td_seconds 1021) db_no_record))
     42 = None \<and>
   settings db_period_48 ''verification_period_hours'' = Some ''48'' \<and>
   validate_token ''abc'' 42 (td_seconds 1021) db_period_48 = (True, ''valid'') \<and>
   fst (handle_verification_callback read_hours ''abc'' 42 (td_seconds 1021) db_period_48)
     = VerifiedSuccess \<and>
   map_option u_expires_at
     (users (snd (handle_verification_callback read_hours ''abc'' 42 (td_seconds 1021)
        db_period_48)) 42)
     = Some (Some (td_seconds 1021 + td_hours 24))"
  by (simp add: validate_token_def handle_verification_callback_def get_verification_token_def
      mark_token_completed_def update_token_status_def get_setting_value_def get_setting_def
      verify_user_manually_def dt_add_def DT_MAX_def td_hours_def td_seconds_def
      read_hours_def db_no_record_def db_period_48_def bot_settings_def token_abc_def
      user_new_def)

section \<open>Advance\<close>

text \<open>
  C3 as stated fails: for a token already \<open>in_progress\<close> the landing route writes the
  record again and re-stamps \<open>updated_at\<close>, here from 1010 s to 1015 s.
\<close>

theorem advance_restamps_in_flight_token:
  "status token_abc = ''in_progress'' \<and>
   t_updated_at token_abc = td_seconds 1010 \<and>
   get_verification_token (db_tokens [token_abc]) ''abc'' = Some token_abc \<and>
   get_verification_token
     (snd (handle_redirect (Some ''abc'') (td_seconds 1015) (db_tokens [token_abc]))) ''abc''
     = Some (token_abc\<lparr>t_updated_at := td_seconds 1015\<rparr>) \<and>
   get_verification_token (mark_token_in_progress ''abc'' (td_seconds 1015) (db_tokens [token_abc]))
     ''abc'' = Some (token_abc\<lparr>t_updated_at := td_seconds 1015\<rparr>) \<and>
   token_abc\<lparr>t_updated_at := td_seconds 1015\<rparr> \<noteq> token_abc"
  by (simp add: handle_redirect_def mark_token_in_progress_def update_token_status_def
      get_verification_token_def td_seconds_def db_tokens_def token_abc_def)

text \<open>
  C3, amended. The landing route leaves the store unchanged for an unknown token, for a
  completed token and for a token past its \<open>expires_at\<close>; a token within its lifetime
  whose status is \<open>pending\<close> or \<open>in_progress\<close> ends with status \<open>in_progress\<close> and
  \<open>updated_at = now\<close>, its other fields unchanged.
\<close>

theorem advance_behaviour:
  "(get_verification_token s tid = Some t \<and> (status t = ''completed'' \<or> t_expires_at t < now)
      \<longrightarrow> handle_redirect (Some tid) now s = (410, s)) \<and>
   (get_verification_token s tid' = Some t' \<and> \<not> t_expires_at t' < now
      \<and> (status t' = ''pending'' \<or> status t' = ''in_progress'')
      \<longrightarrow> fst (handle_redirect (Some tid') now s) = 302 \<and>
          get_verification_token (snd (handle_redirect (Some tid') now s)) tid'
            = Some (t'\<lparr>status := ''in_progress'', t_updated_at := now\<rparr>)) \<and>
   (get_verification_token s tid'' = None
      \<longrightarrow> handle_redirect (Some tid'') now s = (404, s))"
proof (intro conjI impI)
  assume "get_verification_token s tid'' = None"
  then show "handle_redirect (Some tid'') now s = (404, s)"
    by (simp add: handle_redirect_def)
next
  assume "get_verification_token s tid = Some t \<and> (status t = ''completed'' \<or> t_expires_at t < now)"
  then show "handle_redirect (Some tid) now s = (410, s)"
    by (auto simp: handle_redirect_def)
next
  assume a: "get_verification_token s tid' = Some t' \<and> \<not> t_expires_at t' < now
      \<and> (status t' = ''pending'' \<or> status t' = ''in_progress'')"
  then show "fst (handle_redirect (Some tid') now s) = 302"
    by (auto simp: handle_redirect_def)
  have id: "token_id t' = tid'"
    using a by (auto dest: get_verification_token_id)
  from a have "handle_redirect (Some tid') now s = (302, mark_token_in_progress tid' now s)"
    by (auto simp: handle_redirect_def)
  moreover have "get_verification_token (mark_token_in_progress tid' now s) tid'
      = Some (t'\<lparr>status := ''in_progress'', t_updated_at := now\<rparr>)"
    using a id
    by (simp add: get_verification_token_def mark_token_in_progress_def update_token_status_def
        find_update_one)
  ultimately show "get_verification_token (snd (handle_redirect (Some tid') now s)) tid'
            = Some (t'\<lparr>status := ''in_progress'', t_updated_at := now\<rparr>)"
    by simp
qed

theorem advance_behaviour_witness:
  "handle_redirect (Some ''done'') (td_seconds 2000) (db_tokens [token_done, token_def])
     = (410, db_tokens [token_done, token_def]) \<and>
   fst (handle_redirect (Some ''def'') (td_seconds 2000) (db_tokens [token_done, token_def])) = 302 \<and>
   get_verification_token
     (snd (handle_redirect (Some ''def'') (td_seconds 2000) (db_tokens [token_done, token_def])))
     ''def'' = Some (token_def\<lparr>status := ''in_progress'', t_updated_at := td_seconds 2000\<rparr>) \<and>
   handle_redirect (Some ''xyz'') (td_seconds 2000) (db_tokens [token_done, token_def])
     = (404, db_tokens [token_done, token_def])"
proof -
  have h3: "get_verification_token (db_tokens [token_done, token_def]) ''xyz'' = None"
    by (simp add: get_verification_token_def db_tokens_def token_done_def token_def_def)
  have h1: "get_verification_token (db_tokens [token_done, token_def]) ''done'' = Some token_done
      \<and> (status token_done = ''completed'' \<or> t_expires_at token_done < td_seconds 2000)"
    by (simp add: get_verification_token_def td_seconds_def db_tokens_def token_done_def
        token_def_def)
  have h2: "get_verification_token (db_tokens [token_done, token_def]) ''def'' = Some token_def
      \<and> \<not> t_expires_at token_def < td_seconds 2000
      \<and> (status token_def = ''pending'' \<or> status token_def = ''in_progress'')"
    by (simp add: get_verification_token_def td_seconds_def db_tokens_def token_done_def
        token_def_def)
  show ?thesis
    using h1 h2 h3
      advance_behaviour [where s = "db_tokens [token_done, token_def]" and tid = "''done''"
        and t = token_done and now = "td_seconds 2000" and tid' = "''def''" and t' = token_def
        and tid'' = "''xyz''"]
    by blast
qed

section \<open>Minting\<close>

text \<open>
  C4. Minting ought to expire every outstanding token of the user first. With only an
  \<open>in_progress\<close> token \<open>abc\<close>, \<open>generate_verification_link\<close> finds no pending token,
  skips the invalidation and leaves two outstanding tokens; \<open>handle_verify_now\<close> never
  invalidates and leaves the pending \<open>def\<close> next to the new token. Only when a live
  pending token exists does \<open>generate_verification_link\<close> leave the new token alone.
\<close>

theorem mint_keeps_older_tokens:
  "map token_id (outstanding_tokens 42 (db_tokens [token_abc])) = [''abc''] \<and>
   map token_id (outstanding_tokens 42
     (snd (generate_verification_link 600 ''jkl'' (Some ''https://sho.rt/a'') 42 (td_seconds 1012)
        (db_tokens [token_abc]))))
     = [''abc'', ''jkl''] \<and>
   map token_id (outstanding_tokens 42 (db_tokens [token_def])) = [''def''] \<and>
   map token_id (outstanding_tokens 42
     (snd (handle_verify_now 600 ''jkl'' (Some ''https://sho.rt/a'') 42 (td_seconds 2000)
        (db_tokens [token_def]))))
     = [''def'', ''jkl''] \<and>
   map token_id (outstanding_tokens 42
     (snd (generate_verification_link 600 ''jkl'' (Some ''https://sho.rt/a'') 42 (td_seconds 2000)
        (db_tokens [token_def]))))
     = [''jkl'']"
  by (simp add: outstanding_tokens_def generate_verification_link_def handle_verify_now_def
      has_user_pending_token_def invalidate_user_tokens_def update_many_def
      create_verification_token_def get_verification_token_def get_user_by_id_def
      get_setting_value_def get_setting_def truthy_def dt_add_def DT_MAX_def td_seconds_def db_tokens_def
      bot_settings_def token_abc_def token_def_def)

section \<open>Membership\<close>

text \<open>
  C8 as stated fails: a member status of \<open>unknown\<close> is neither \<open>left\<close> nor \<open>kicked\<close>, so
  the check answers that the user is subscribed.
\<close>

theorem unknown_status_counts_as_member:
  "gateway_example (ChatId (-1001)) 4 = Inr ''unknown'' \<and>
   check_user_subscribed gateway_example 4 (Some (-1001)) None"
  by (simp add: gateway_example_def check_user_subscribed_def chat_identifier_def)

text \<open>
  C8, amended. With a chat identifier at hand, every member status other than \<open>left\<close> and
  \<open>kicked\<close> (creator, administrator, member, restricted, and any further string) counts
  as subscribed; \<open>left\<close>, \<open>kicked\<close> and an error of the gateway count as not subscribed.
  Without a chat identifier (the channel id missing or 0 and the username missing or
  empty) the user counts as not subscribed, and the gateway is not asked.
\<close>

theorem membership_by_denylist:
  "(chat_identifier channel_id channel_username = Some c
      \<and> get_chat_member c u1 = Inr st1 \<and> st1 \<noteq> ''left'' \<and> st1 \<noteq> ''kicked''
      \<longrightarrow> check_user_subscribed get_chat_member u1 channel_id channel_username) \<and>
   (chat_identifier channel_id channel_username = Some c
      \<and> get_chat_member c u2 = Inr st2 \<and> (st2 = ''left'' \<or> st2 = ''kicked'')
      \<longrightarrow> \<not> check_user_subscribed get_chat_member u2 channel_id channel_username) \<and>
   (chat_identifier channel_id channel_username = Some c \<and> get_chat_member c u3 = Inl e
      \<longrightarrow> \<not> check_user_subscribed get_chat_member u3 channel_id channel_username) \<and>
   ((no_id = None \<or> no_id = Some 0) \<and> (no_name = None \<or> no_name = Some [])
      \<longrightarrow> chat_identifier no_id no_name = None
          \<and> \<not> check_user_subscribed get_chat_member u4 no_id no_name)"
  by (auto simp: check_user_subscribed_def chat_identifier_def)

theorem membership_by_denylist_witness:
  "check_user_subscribed gateway_example 1 (Some (-1001)) None \<and>
   \<not> check_user_subscribed gateway_example 2 (Some (-1001)) None \<and>
   \<not> check_user_subscribed gateway_example 3 (Some (-1001)) None \<and>
   \<not> check_user_subscribed gateway_example 1 (Some 0) (Some [])"
proof -
  have h1: "chat_identifier (Some (-1001)) None = Some (ChatId (-1001))
      \<and> gateway_example (ChatId (-1001)) 1 = Inr ''restricted''
      \<and> ''restricted'' \<noteq> ''left'' \<and> ''restricted'' \<noteq> ''kicked''"
    by (simp add: chat_identifier_def gateway_example_def)
  have h2: "chat_identifier (Some (-1001)) None = Some (ChatId (-1001))
      \<and> gateway_example (ChatId (-1001)) 2 = Inr ''kicked''
      \<and> (''kicked'' = ''left'' \<or> ''kicked'' = ''kicked'')"
    by (simp add: chat_identifier_def gateway_example_def)
  have h3: "chat_identifier (Some (-1001)) None = Some (ChatId (-1001))
      \<and> gateway_example (ChatId (-1001)) 3 = Inl TelegramError"
    by (simp add: chat_identifier_def gateway_example_def)
  have h4: "(Some (0::int) = None \<or> Some (0::int) = Some 0)
      \<and> (Some ([]::string) = None \<or> Some ([]::string) = Some [])"
    by simp
  show ?thesis
    using h1 h2 h3 h4
      membership_by_denylist [where channel_id = "Some (-1001)" and channel_username = None
        and c = "ChatId (-1001)" and get_chat_member = gateway_example and ?u1.0 = 1
        and ?st1.0 = "''restricted''" and ?u2.0 = 2 and ?st2.0 = "''kicked''" and ?u3.0 = 3
        and e = TelegramError and no_id = "Some 0" and no_name = "Some []" and ?u4.0 = 1]
    by blast
qed

end
